theory Spec2Isabelle
  imports Complex_Main
begin

section \<open>Images and the library operations the script calls\<close>

text \<open>
  The script \<^verbatim>\<open>try334.py\<close> converts a luma plane and two subsampled chroma planes
  to RGB through pyvips. An image is a dense grid of samples with a width, a height, a
  number of bands and an interpretation tag. Samples are modelled as real numbers:
  arithmetic is exact, and rounding of the library's floating-point formats is not
  modelled.
\<close>

datatype error = InvalidDimension | VipsError | AttributeError

text \<open>The interpretation tags of pyvips that matter here; the script's \<^verbatim>\<open>"srgb"\<close> is
  the library's name for the sRGB interpretation.\<close>

datatype vips_interpretation = Multiband | B_W | SRGB

record image =
  width :: nat
  height :: nat
  bands :: nat
  interp :: vips_interpretation
  px :: "nat \<Rightarrow> nat \<Rightarrow> nat \<Rightarrow> real"

text \<open>Reading band \<open>b\<close> of the pixel at column \<open>x\<close>, row \<open>y\<close>; outside the image the
  value is zero, which is what a smaller image contributes when it is enlarged with zero
  pixels.\<close>

definition sample :: "image \<Rightarrow> nat \<Rightarrow> nat \<Rightarrow> nat \<Rightarrow> real" where
  "sample im x y b =
     (if x < width im \<and> y < height im \<and> b < bands im then px im x y b else 0)"

text \<open>A single-band plane holding the same value everywhere.\<close>

definition solid :: "nat \<Rightarrow> nat \<Rightarrow> real \<Rightarrow> image" where
  "solid w h v =
     \<lparr>width = w, height = h, bands = 1, interp = B_W, px = (\<lambda>x y b. v)\<rparr>"

text \<open>Sequencing of calls that may raise: the first error ends the computation.\<close>

definition and_then :: "error + 'a \<Rightarrow> ('a \<Rightarrow> error + 'b) \<Rightarrow> error + 'b" where
  "and_then r f = (case r of Inl e \<Rightarrow> Inl e | Inr v \<Rightarrow> f v)"

subsection \<open>Resize with the linear kernel\<close>

text \<open>
  pyvips's \<^verbatim>\<open>Image.resize(scale, kernel="linear")\<close> is a library operation whose code
  is not in the repository's sources; only the calls in \<^verbatim>\<open>try2\<close> and \<^verbatim>\<open>try3\<close> are.
  The four definitions of this subsection follow section 4.1 of the specification
  (\<open>upsample\<close>) instead.
\<close>

text \<open>Modelled from the spec: the coordinate mapping of the missing resize operation,
  \<open>input_coord = (output_coord + 0.5) / factor - 0.5\<close>.\<close>

definition src_coord :: "int \<Rightarrow> nat \<Rightarrow> real" where
  "src_coord F oc = (real oc + 1 / 2) / real_of_int F - 1 / 2"

text \<open>Modelled from the spec: the edge policy of the missing resize operation, a
  coordinate outside \<open>[0, n - 1]\<close> is clamped to the nearest valid index.\<close>

definition clamp_index :: "nat \<Rightarrow> int \<Rightarrow> nat" where
  "clamp_index n i = nat (max 0 (min (int n - 1) i))"

text \<open>Modelled from the spec: the interpolation of the missing resize operation, bilinear
  over the four input samples nearest to the input coordinate \<open>(sx, sy)\<close>.\<close>

definition bilinear :: "image \<Rightarrow> real \<Rightarrow> real \<Rightarrow> nat \<Rightarrow> real" where
  "bilinear P sx sy b =
     (let x0 = \<lfloor>sx\<rfloor>; y0 = \<lfloor>sy\<rfloor>;
          fx = sx - of_int x0; fy = sy - of_int y0;
          xa = clamp_index (width P) x0; xb = clamp_index (width P) (x0 + 1);
          ya = clamp_index (height P) y0; yb = clamp_index (height P) (y0 + 1)
      in (1 - fx) * (1 - fy) * px P xa ya b + fx * (1 - fy) * px P xb ya b
         + (1 - fx) * fy * px P xa yb b + fx * fy * px P xb yb b)"

text \<open>Modelled from the spec: the missing resize operation itself, the specification's
  \<open>upsample(plane, factor)\<close>. The output is \<open>factor\<close> times as wide and as high; a
  factor that is not positive is an \<open>InvalidDimension\<close> error.\<close>

definition upsample :: "image \<Rightarrow> int \<Rightarrow> error + image" where
  "upsample P F =
     (if F \<le> 0 then Inl InvalidDimension
      else Inr \<lparr>width = width P * nat F, height = height P * nat F, bands = bands P,
                interp = interp P,
                px = (\<lambda>x y b. bilinear P (src_coord F x) (src_coord F y) b)\<rparr>)"

subsection \<open>Band join, subtraction of constants, recombination, retagging\<close>

text \<open>
  These are pyvips operations as well, and their code is not in the repository's sources
  either. The script's lines 30 and 31 call them; what they do is taken from the
  specification's steps 1 to 4 where it speaks, and from the behaviour libvips documents
  for them where it does not (band counts that do not fit) or where the library is known
  to differ (images of different sizes).
\<close>

text \<open>
  Modelled from the spec: \<^verbatim>\<open>a.bandjoin([b, c])\<close>, the band interleave of step 1,
  concatenates the bands of the images in the order given. For images of different sizes
  the definition follows libvips, whose band join refuses nothing: the smaller images are
  enlarged to the largest width and height by adding zero pixels along the bottom and the
  right.
\<close>

fun join_px :: "image list \<Rightarrow> nat \<Rightarrow> nat \<Rightarrow> nat \<Rightarrow> real" where
  "join_px [] x y b = 0"
| "join_px (im # ims) x y b =
     (if b < bands im then sample im x y b else join_px ims x y (b - bands im))"

definition bandjoin :: "image \<Rightarrow> image list \<Rightarrow> image" where
  "bandjoin im others =
     (let ims = im # others
      in \<lparr>width = fold max (map width ims) 0, height = fold max (map height ims) 0,
          bands = sum_list (map bands ims), interp = interp im, px = join_px ims\<rparr>)"

text \<open>
  Modelled from the spec: \<^verbatim>\<open>image - [c0, c1, ...]\<close>, the level shift of step 2,
  subtracts a constant from every sample. One constant serves
  all bands; as many constants as bands gives one per band; several constants on a
  single-band image give one output band per constant; any other combination raises.
\<close>

definition sub_const :: "image \<Rightarrow> real list \<Rightarrow> error + image" where
  "sub_const im cs =
     (if length cs = 1 then Inr (im\<lparr>px := (\<lambda>x y b. px im x y b - cs ! 0)\<rparr>)
      else if cs \<noteq> [] \<and> length cs = bands im
        then Inr (im\<lparr>px := (\<lambda>x y b. px im x y b - cs ! b)\<rparr>)
      else if cs \<noteq> [] \<and> bands im = 1
        then Inr (im\<lparr>bands := length cs, px := (\<lambda>x y b. px im x y 0 - cs ! b)\<rparr>)
      else Inl VipsError)"

text \<open>
  Modelled from the spec: \<^verbatim>\<open>image.recomb(m)\<close>, the recombination of step 3, treats
  every pixel as a vector of its bands and multiplies it by
  the matrix \<open>m\<close>, one output band per matrix row. The matrix must be as wide as the
  image has bands. The result is not clamped.
\<close>

definition dot :: "real list \<Rightarrow> real list \<Rightarrow> real" where
  "dot r v = sum_list (map2 (*) r v)"

definition recomb :: "image \<Rightarrow> real list list \<Rightarrow> error + image" where
  "recomb im m =
     (if m \<noteq> [] \<and> list_all (\<lambda>r. length r = bands im) m
      then Inr (im\<lparr>bands := length m,
                   px := (\<lambda>x y i. dot (m ! i) (map (px im x y) [0..<bands im]))\<rparr>)
      else Inl VipsError)"

text \<open>Modelled from the spec: \<^verbatim>\<open>image.copy(interpretation=t)\<close>, the tagging of step 4,
  changes the tag and no sample.\<close>

definition copy_interpretation :: "image \<Rightarrow> vips_interpretation \<Rightarrow> image" where
  "copy_interpretation im t = im\<lparr>interp := t\<rparr>"

section \<open>The script\<close>

text \<open>Lines 13 to 19: the subsampling shift, the factor \<^verbatim>\<open>1 << shift\<close> and the
  YCbCr to RGB matrix.\<close>

definition shift :: nat where
  "shift = 1"

definition subsample :: int where
  "subsample = push_bit shift 1"

definition ycc2rgb :: "real list list" where
  "ycc2rgb = [[1.0, 0.0, 1.402],
              [1.0, -0.344136, -0.714136],
              [1.0, 1.772, 0.0]]"

text \<open>
  Lines 30 and 31, which \<^verbatim>\<open>try2\<close> and \<^verbatim>\<open>try3\<close> share: join the bands in the order
  Y, Cb, Cr, subtract the offsets 16, 128, 128, recombine with \<^verbatim>\<open>ycc2rgb\<close> and tag
  the result \<^verbatim>\<open>srgb\<close>. This is the transform of the specification's section 4.2 with
  the script's matrix and offsets.
\<close>

definition transform :: "image \<Rightarrow> image \<Rightarrow> image \<Rightarrow> error + image" where
  "transform Y Cb Cr =
     and_then (sub_const (bandjoin Y [Cb, Cr]) [16, 128, 128]) (\<lambda>YCbCr.
     and_then (recomb YCbCr ycc2rgb) (\<lambda>rgb.
     Inr (copy_interpretation rgb SRGB)))"

text \<open>Lines 27 to 31.\<close>

definition try2 :: "image \<Rightarrow> image \<Rightarrow> image \<Rightarrow> error + image" where
  "try2 Y Cb Cr =
     and_then (upsample Cb subsample) (\<lambda>Cb'.
     and_then (upsample Cr subsample) (\<lambda>Cr'.
     and_then (sub_const (bandjoin Y [Cb', Cr']) [16, 128, 128]) (\<lambda>YCbCr.
     and_then (recomb YCbCr ycc2rgb) (\<lambda>rgb.
     Inr (copy_interpretation rgb SRGB)))))"

text \<open>
  Lines 33 to 38. What \<^verbatim>\<open>write_to_binary\<close> returns for an image is decided outside the
  repository, so the serialiser is a parameter \<open>wtb\<close> of the model.
\<close>

definition try3 :: "(image \<Rightarrow> error + 'b) \<Rightarrow> image \<Rightarrow> image \<Rightarrow> image \<Rightarrow> error + 'b" where
  "try3 wtb Y Cb Cr =
     and_then (upsample Cb subsample) (\<lambda>Cb'.
     and_then (upsample Cr subsample) (\<lambda>Cr'.
     and_then (sub_const (bandjoin Y [Cb', Cr']) [16, 128, 128]) (\<lambda>YCbCr.
     and_then (recomb YCbCr ycc2rgb) (\<lambda>rgb.
     wtb (copy_interpretation rgb SRGB)))))"

text \<open>
  Lines 40 to 47. \<^verbatim>\<open>bench\<close> receives a message and one of the two functions, calls it
  and calls \<^verbatim>\<open>copy_memory()\<close> on what it returns. An image has that method, a bytes
  object has not (Python raises \<^verbatim>\<open>AttributeError\<close>). The timing that \<^verbatim>\<open>bench\<close> prints
  is not modelled: the model returns the message with the result.
\<close>

datatype fn = Try2 | Try3

datatype 'b pyvalue = Image image | Binary 'b

definition call :: "(image \<Rightarrow> error + 'b) \<Rightarrow> fn \<Rightarrow> image \<Rightarrow> image \<Rightarrow> image \<Rightarrow> error + 'b pyvalue" where
  "call wtb f Y Cb Cr =
     (case f of
        Try2 \<Rightarrow> and_then (try2 Y Cb Cr) (\<lambda>im. Inr (Image im))
      | Try3 \<Rightarrow> and_then (try3 wtb Y Cb Cr) (\<lambda>bs. Inr (Binary bs)))"

definition copy_memory :: "'b pyvalue \<Rightarrow> error + 'b pyvalue" where
  "copy_memory v = (case v of Image im \<Rightarrow> Inr (Image im) | Binary bs \<Rightarrow> Inl AttributeError)"

definition bench ::
  "(image \<Rightarrow> error + 'b) \<Rightarrow> string \<Rightarrow> fn \<Rightarrow> image \<Rightarrow> image \<Rightarrow> image \<Rightarrow> string \<times> (error + 'b pyvalue)" where
  "bench wtb msg f Y Cb Cr = (msg, and_then (call wtb f Y Cb Cr) copy_memory)"

text \<open>Lines 46 and 47: the two calls of \<^verbatim>\<open>bench\<close>, in order.\<close>

definition benchmarks :: "(string \<times> fn) list" where
  "benchmarks = [(''linear'', Try2), (''plus write_to_binary'', Try2)]"

definition main :: "(image \<Rightarrow> error + 'b) \<Rightarrow> image \<Rightarrow> image \<Rightarrow> image \<Rightarrow> (string \<times> (error + 'b pyvalue)) list" where
  "main wtb Y Cb Cr = map (\<lambda>(msg, f). bench wtb msg f Y Cb Cr) benchmarks"

section \<open>Planes and a serialiser for examples\<close>

text \<open>A plane of two pixels side by side.\<close>

definition two_pixels :: "real \<Rightarrow> real \<Rightarrow> image" where
  "two_pixels l r =
     \<lparr>width = 2, height = 1, bands = 1, interp = B_W, px = (\<lambda>x y b. if x = 0 then l else r)\<rparr>"

text \<open>A serialiser to run \<^verbatim>\<open>try3\<close> with: the samples in row-major order, the bands of
  a pixel together.\<close>

definition pixel_buffer :: "image \<Rightarrow> error + real list" where
  "pixel_buffer im =
     Inr (concat (map (\<lambda>y. concat (map (\<lambda>x. map (sample im x y) [0..<bands im])
                                        [0..<width im]))
                      [0..<height im]))"

section \<open>Basic facts\<close>

lemma and_then_Inr [simp]: "and_then (Inr v) f = f v"
  by (simp add: and_then_def)

lemma and_then_Inl [simp]: "and_then (Inl e) f = Inl e"
  by (simp add: and_then_def)

lemma try2_transform:
  "try2 Y Cb Cr =
     and_then (upsample Cb subsample) (\<lambda>Cb'.
     and_then (upsample Cr subsample) (\<lambda>Cr'. transform Y Cb' Cr'))"
  by (simp add: try2_def transform_def)

lemma try3_try2: "try3 wtb Y Cb Cr = and_then (try2 Y Cb Cr) wtb"
  by (simp add: try3_def try2_def and_then_def split: sum.splits)

section \<open>The transform on single-band planes\<close>

text \<open>
  For three single-band planes the two lines of the transform never raise. The result
  is as large as the largest plane; every pixel is the matrix applied to the samples of
  the three planes at that pixel, less the offsets, where a plane that does not reach the
  pixel contributes zero.
\<close>

lemma bandjoin_planes:
  assumes "bands Y = 1" "bands Cb = 1" "bands Cr = 1"
  shows "bands (bandjoin Y [Cb, Cr]) = 3"
    and "width (bandjoin Y [Cb, Cr]) = max (width Y) (max (width Cb) (width Cr))"
    and "height (bandjoin Y [Cb, Cr]) = max (height Y) (max (height Cb) (height Cr))"
    and "px (bandjoin Y [Cb, Cr]) x y 0 = sample Y x y 0"
    and "px (bandjoin Y [Cb, Cr]) x y (Suc 0) = sample Cb x y 0"
    and "px (bandjoin Y [Cb, Cr]) x y 2 = sample Cr x y 0"
  using assms by (simp_all add: bandjoin_def Let_def max.commute max.left_commute)

lemma transform_planes:
  assumes "bands Y = 1" "bands Cb = 1" "bands Cr = 1"
  shows "transform Y Cb Cr =
     Inr \<lparr>width = max (width Y) (max (width Cb) (width Cr)),
          height = max (height Y) (max (height Cb) (height Cr)),
          bands = 3, interp = SRGB,
          px = (\<lambda>x y i. dot (ycc2rgb ! i)
                 [sample Y x y 0 - 16, sample Cb x y 0 - 128, sample Cr x y 0 - 128])\<rparr>"
proof -
  define J where "J = bandjoin Y [Cb, Cr]"
  define S where "S = J\<lparr>px := (\<lambda>x y b. px J x y b - [16, 128, 128] ! b)\<rparr>"
  define R where "R = S\<lparr>bands := length ycc2rgb,
      px := (\<lambda>x y i. dot (ycc2rgb ! i) (map (px S x y) [0..<bands S]))\<rparr>"
  have bJ: "bands J = 3"
    using assms by (simp add: J_def bandjoin_planes)
  have s: "sub_const J [16, 128, 128] = Inr S"
    by (simp add: sub_const_def bJ S_def)
  have bS: "bands S = 3"
    by (simp add: S_def bJ)
  have r: "recomb S ycc2rgb = Inr R"
    by (simp add: recomb_def bS R_def) (simp add: ycc2rgb_def)
  have t: "transform Y Cb Cr = Inr (copy_interpretation R SRGB)"
    by (simp add: transform_def s r flip: J_def)
  have u: "[0..<3] = [0, Suc 0, 2]"
    by (simp add: upt_rec)
  have pS: "map (px S x y) [0..<bands S] =
      [sample Y x y 0 - 16, sample Cb x y 0 - 128, sample Cr x y 0 - 128]" for x y
    using assms by (simp add: bS u S_def J_def bandjoin_planes)
  have "copy_interpretation R SRGB =
     \<lparr>width = max (width Y) (max (width Cb) (width Cr)),
      height = max (height Y) (max (height Cb) (height Cr)),
      bands = 3, interp = SRGB,
      px = (\<lambda>x y i. dot (ycc2rgb ! i)
             [sample Y x y 0 - 16, sample Cb x y 0 - 128, sample Cr x y 0 - 128])\<rparr>"
    using assms
    by (simp add: copy_interpretation_def R_def pS)
       (simp add: S_def J_def bandjoin_planes ycc2rgb_def)
  with t show ?thesis by simp
qed

lemma dot_ycc2rgb:
  "dot (ycc2rgb ! 0) [a, b, c] = a + 1.402 * c"
  "dot (ycc2rgb ! Suc 0) [a, b, c] = a - 0.344136 * b - 0.714136 * c"
  "dot (ycc2rgb ! 2) [a, b, c] = a + 1.772 * b"
  by (simp_all add: ycc2rgb_def dot_def)

lemma transform_planes_samples:
  assumes "bands Y = 1" "bands Cb = 1" "bands Cr = 1"
  shows "\<exists>out. transform Y Cb Cr = Inr out
    \<and> width out = max (width Y) (max (width Cb) (width Cr))
    \<and> height out = max (height Y) (max (height Cb) (height Cr))
    \<and> bands out = 3 \<and> interp out = SRGB
    \<and> (\<forall>x y. x < width out \<longrightarrow> y < height out \<longrightarrow>
          sample out x y 0 = (sample Y x y 0 - 16) + 1.402 * (sample Cr x y 0 - 128)
        \<and> sample out x y 1 = (sample Y x y 0 - 16) - 0.344136 * (sample Cb x y 0 - 128)
                                - 0.714136 * (sample Cr x y 0 - 128)
        \<and> sample out x y 2 = (sample Y x y 0 - 16) + 1.772 * (sample Cb x y 0 - 128))"
  unfolding transform_planes [OF assms]
  by (simp add: sample_def dot_ycc2rgb)

lemma less_3_cases: "b < 3 \<Longrightarrow> b = 0 \<or> b = 1 \<or> b = (2::nat)"
  by arith

lemma solid_simps:
  "width (solid w h v) = w" "height (solid w h v) = h" "bands (solid w h v) = 1"
  "px (solid w h v) x y b = v"
  "sample (solid w h v) x y b = (if x < w \<and> y < h \<and> b < 1 then v else 0)"
  by (simp_all add: solid_def sample_def)

lemma two_pixels_simps:
  "width (two_pixels l r) = 2" "height (two_pixels l r) = 1" "bands (two_pixels l r) = 1"
  "sample (two_pixels l r) x y b = (if x < 2 \<and> y < 1 \<and> b < 1 then if x = 0 then l else r else 0)"
  by (simp_all add: two_pixels_def sample_def)

section \<open>The missing resize operation\<close>

lemma clamp_index_inside: "x < n \<Longrightarrow> clamp_index n (int x) = x"
  by (simp add: clamp_index_def)

lemma clamp_index_less: "0 < n \<Longrightarrow> clamp_index n i < n"
  by (auto simp add: clamp_index_def)

lemma frac_bounds: "0 \<le> s - of_int \<lfloor>s\<rfloor>" "s - of_int \<lfloor>s\<rfloor> < 1" for s :: real
  by linarith+

lemma upsample_solid:
  "\<exists>U. upsample (solid 1 1 v) subsample = Inr U \<and> bands U = 1 \<and> width U = 2 \<and> height U = 2 \<and>
     (\<forall>x y. sample U x y 0 = (if x < 2 \<and> y < 2 then v else 0))"
  by (simp add: upsample_def subsample_def shift_def solid_simps sample_def bilinear_def Let_def
      algebra_simps)

text \<open>
  C1. For every plane of width W and height H and every positive factor F (the powers
  of two among them), the upsample operation computes the output sample at \<open>(x, y)\<close> by
  bilinear interpolation over the four nearest input samples: the input coordinate is
  \<open>(output_coord + 0.5) / F - 0.5\<close> on each axis (pixel centres aligned, no replication
  of the nearest pixel), its floor and the floor plus one give the four neighbours, its
  fractional parts, which lie in \<open>[0, 1)\<close>, give the weights, and a neighbour outside
  \<open>[0, W - 1]\<close> or \<open>[0, H - 1]\<close> is clamped to the nearest edge sample, so that all
  four samples read are samples of the plane.
\<close>

theorem upsample_bilinear:
  assumes "0 < F" and "x < width P * nat F" and "y < height P * nat F" and "b < bands P"
  shows "\<exists>Q. upsample P F = Inr Q \<and>
     (let sx = (real x + 1 / 2) / real_of_int F - 1 / 2;
          sy = (real y + 1 / 2) / real_of_int F - 1 / 2;
          x0 = \<lfloor>sx\<rfloor>; y0 = \<lfloor>sy\<rfloor>;
          fx = sx - of_int x0; fy = sy - of_int y0;
          xa = nat (max 0 (min (int (width P) - 1) x0));
          xb = nat (max 0 (min (int (width P) - 1) (x0 + 1)));
          ya = nat (max 0 (min (int (height P) - 1) y0));
          yb = nat (max 0 (min (int (height P) - 1) (y0 + 1)))
      in xa < width P \<and> xb < width P \<and> ya < height P \<and> yb < height P \<and>
         0 \<le> fx \<and> fx < 1 \<and> 0 \<le> fy \<and> fy < 1 \<and>
         sample Q x y b =
           (1 - fx) * (1 - fy) * sample P xa ya b + fx * (1 - fy) * sample P xb ya b
           + (1 - fx) * fy * sample P xa yb b + fx * fy * sample P xb yb b)"
proof -
  have W: "0 < width P" and H: "0 < height P"
    using assms(2,3) by (auto intro: Nat.gr0I)
  define Q where "Q = \<lparr>width = width P * nat F, height = height P * nat F, bands = bands P,
      interp = interp P, px = (\<lambda>x y b. bilinear P (src_coord F x) (src_coord F y) b)\<rparr>"
  have up: "upsample P F = Inr Q"
    using assms(1) by (simp add: upsample_def Q_def)
  have sQ: "sample Q x y b = bilinear P (src_coord F x) (src_coord F y) b"
    using assms by (simp add: sample_def Q_def)
  have c: "clamp_index (width P) i < width P" "clamp_index (height P) j < height P" for i j
    using W H by (simp_all add: clamp_index_less)
  have sP: "sample P (clamp_index (width P) i) (clamp_index (height P) j) b
      = px P (clamp_index (width P) i) (clamp_index (height P) j) b" for i j
    using c assms(4) by (simp add: sample_def)
  show ?thesis
    unfolding up
    using c frac_bounds
    by (simp add: Let_def sQ bilinear_def src_coord_def sP flip: clamp_index_def)
qed

theorem upsample_bilinear_witness:
  "\<not> isl (upsample (two_pixels 0 100) 2) \<and>
   sample (projr (upsample (two_pixels 0 100) 2)) 0 0 0 = 0 \<and>
   sample (projr (upsample (two_pixels 0 100) 2)) 1 0 0 = 25 \<and>
   sample (projr (upsample (two_pixels 0 100) 2)) 2 1 0 = 75 \<and>
   sample (projr (upsample (two_pixels 0 100) 2)) 3 1 0 = 100"
proof -
  let ?P = "two_pixels 0 100"
  have F: "(0::int) < 2" by simp
  have f: "\<lfloor>- (1 / 4 :: real)\<rfloor> = - 1" "\<lfloor>1 / 4 :: real\<rfloor> = 0" "\<lfloor>3 / 4 :: real\<rfloor> = 0"
    "\<lfloor>5 / 4 :: real\<rfloor> = 1"
    by simp_all
  from upsample_bilinear [OF F, of 0 ?P 0 0]
  obtain Qa where "upsample ?P 2 = Inr Qa" "sample Qa 0 0 0 = 0"
    by (auto simp add: Let_def two_pixels_simps f)
  then have a: "sample (projr (upsample ?P 2)) 0 0 0 = 0"
    by simp
  from upsample_bilinear [OF F, of 1 ?P 0 0]
  obtain Qb where "upsample ?P 2 = Inr Qb" "sample Qb 1 0 0 = 25"
    by (auto simp add: Let_def two_pixels_simps f)
  then have b: "sample (projr (upsample ?P 2)) 1 0 0 = 25"
    by simp
  from upsample_bilinear [OF F, of 2 ?P 1 0]
  obtain Qc where "upsample ?P 2 = Inr Qc" "sample Qc 2 1 0 = 75"
    by (auto simp add: Let_def two_pixels_simps f)
  then have c: "sample (projr (upsample ?P 2)) 2 1 0 = 75"
    by simp
  from upsample_bilinear [OF F, of 3 ?P 1 0]
  obtain Qd where "upsample ?P 2 = Inr Qd" "sample Qd 3 1 0 = 100"
    by (auto simp add: Let_def two_pixels_simps f)
  then have d: "sample (projr (upsample ?P 2)) 3 1 0 = 100"
    by simp
  have "\<not> isl (upsample ?P 2)"
    by (simp add: upsample_def)
  with a b c d show ?thesis
    by simp
qed

text \<open>
  C4. For every plane P of width W and height H and every factor F > 0, the result of
  upsample(P, F) is a plane of width W * F and height H * F.
\<close>

theorem upsample_dimensions:
  assumes "0 < F"
  shows "\<exists>Q. upsample P F = Inr Q \<and> width Q = width P * nat F \<and> height Q = height P * nat F"
  using assms by (simp add: upsample_def)

theorem upsample_dimensions_witness:
  "\<not> isl (upsample (solid 3 5 7) 2) \<and> width (projr (upsample (solid 3 5 7) 2)) = 6 \<and>
   height (projr (upsample (solid 3 5 7) 2)) = 10"
proof -
  have "(0::int) < 2" by simp
  from upsample_dimensions [OF this, of "solid 3 5 7"] show ?thesis
    by (auto simp add: solid_simps)
qed

text \<open>
  C5. For every plane P, upsample(P, 1) returns a plane whose every sample equals the
  corresponding sample of P: at factor 1 the input coordinate is the output coordinate.
  In the exact arithmetic of the model the samples are equal, hence within any
  floating-point tolerance.
\<close>

theorem upsample_factor_1:
  "\<exists>Q. upsample P 1 = Inr Q \<and> width Q = width P \<and> height Q = height P \<and> bands Q = bands P \<and>
       (\<forall>x y b. sample Q x y b = sample P x y b)"
  by (simp add: upsample_def sample_def bilinear_def src_coord_def Let_def clamp_index_inside)

theorem upsample_factor_1_witness:
  "\<not> isl (upsample (two_pixels 3 9) 1) \<and>
   width (projr (upsample (two_pixels 3 9) 1)) = 2 \<and>
   height (projr (upsample (two_pixels 3 9) 1)) = 1 \<and>
   sample (projr (upsample (two_pixels 3 9) 1)) 0 0 0 = 3 \<and>
   sample (projr (upsample (two_pixels 3 9) 1)) 1 0 0 = 9"
proof -
  from upsample_factor_1 [of "two_pixels 3 9"]
  obtain Q where "upsample (two_pixels 3 9) 1 = Inr Q" "width Q = 2" "height Q = 1"
    "\<forall>x y b. sample Q x y b = sample (two_pixels 3 9) x y b"
    by (auto simp add: two_pixels_simps)
  then show ?thesis
    by (simp add: two_pixels_simps)
qed

section \<open>Known values of the transform\<close>

text \<open>
  C2. On a constant input where every pixel has Y = 16, Cb = 128 and Cr = 255, the
  transform with the matrix \<open>ycc2rgb\<close> and the offsets 16, 128, 128 produces at every
  pixel the unclamped values R = 1.402 * 127 (178.05 to two decimals),
  G = -0.714136 * 127 (-90.70 to two decimals) and B = 0. The model computes exactly, so
  the values are these products, and they lie within 0.01 of the two-decimal figures.
\<close>

theorem transform_solid_16_128_255:
  assumes "bands Y = 1" "bands Cb = 1" "bands Cr = 1"
    and "width Y = w" "width Cb = w" "width Cr = w"
    and "height Y = h" "height Cb = h" "height Cr = h"
    and "\<forall>x<w. \<forall>y<h. sample Y x y 0 = 16 \<and> sample Cb x y 0 = 128 \<and> sample Cr x y 0 = 255"
  shows "\<exists>out. transform Y Cb Cr = Inr out \<and> width out = w \<and> height out = h \<and>
           (\<forall>x<w. \<forall>y<h.
              sample out x y 0 = 1.402 * 127 \<and> \<bar>sample out x y 0 - 178.05\<bar> \<le> 0.01 \<and>
              sample out x y 1 = - 0.714136 * 127 \<and> \<bar>sample out x y 1 - (- 90.70)\<bar> \<le> 0.01 \<and>
              sample out x y 2 = 0)"
proof -
  from transform_planes_samples [OF assms(1-3)]
  obtain out where out: "transform Y Cb Cr = Inr out"
    "width out = max (width Y) (max (width Cb) (width Cr))"
    "height out = max (height Y) (max (height Cb) (height Cr))"
    and s: "\<And>x y. x < width out \<Longrightarrow> y < height out \<Longrightarrow>
           sample out x y 0 = (sample Y x y 0 - 16) + 1.402 * (sample Cr x y 0 - 128)
        \<and> sample out x y 1 = (sample Y x y 0 - 16) - 0.344136 * (sample Cb x y 0 - 128)
                                - 0.714136 * (sample Cr x y 0 - 128)
        \<and> sample out x y 2 = (sample Y x y 0 - 16) + 1.772 * (sample Cb x y 0 - 128)"
    by (elim exE conjE) blast
  have wh: "width out = w" "height out = h"
    using out assms by simp_all
  have "sample out x y 0 = 1.402 * 127 \<and> \<bar>sample out x y 0 - 178.05\<bar> \<le> 0.01 \<and>
        sample out x y 1 = - 0.714136 * 127 \<and> \<bar>sample out x y 1 - (- 90.70)\<bar> \<le> 0.01 \<and>
        sample out x y 2 = 0" if "x < w" "y < h" for x y
  proof -
    from that assms(10) have v: "sample Y x y 0 = 16" "sample Cb x y 0 = 128" "sample Cr x y 0 = 255"
      by simp_all
    from that wh have r: "x < width out" "y < height out"
      by simp_all
    show ?thesis
      using s [OF r] v by simp
  qed
  with out(1) wh show ?thesis
    by simp
qed

theorem transform_solid_16_128_255_witness:
  "\<not> isl (transform (solid 2 2 16) (solid 2 2 128) (solid 2 2 255)) \<and>
   sample (projr (transform (solid 2 2 16) (solid 2 2 128) (solid 2 2 255))) 0 1 0 = 178.054 \<and>
   sample (projr (transform (solid 2 2 16) (solid 2 2 128) (solid 2 2 255))) 0 1 1 = - 90.695272 \<and>
   sample (projr (transform (solid 2 2 16) (solid 2 2 128) (solid 2 2 255))) 0 1 2 = 0"
proof -
  have vals: "\<forall>x<2. \<forall>y<2. sample (solid 2 2 16) x y 0 = 16 \<and> sample (solid 2 2 128) x y 0 = 128
      \<and> sample (solid 2 2 255) x y 0 = 255"
    by (simp add: solid_simps)
  from transform_solid_16_128_255 [of "solid 2 2 16" "solid 2 2 128" "solid 2 2 255" 2 2] vals
  obtain out where "transform (solid 2 2 16) (solid 2 2 128) (solid 2 2 255) = Inr out"
    and "\<forall>x<2. \<forall>y<2.
              sample out x y 0 = 1.402 * 127 \<and> \<bar>sample out x y 0 - 178.05\<bar> \<le> 0.01 \<and>
              sample out x y 1 = - 0.714136 * 127 \<and> \<bar>sample out x y 1 - (- 90.70)\<bar> \<le> 0.01 \<and>
              sample out x y 2 = 0"
    by (auto simp add: solid_simps)
  then show ?thesis
    by simp
qed

text \<open>
  C3. On a solid-colour input where every pixel has Y = 116, Cb = 128 and Cr = 128, the
  transform with the matrix \<open>ycc2rgb\<close> and the offsets 16, 128, 128 yields
  R = G = B = 100 at every pixel: the offsets cancel the chroma and the luma passes
  through the first matrix column of ones. In the exact arithmetic of the model the
  values are equal to 100, hence within the tolerance of 0.01.
\<close>

theorem transform_solid_116_128_128:
  assumes "bands Y = 1" "bands Cb = 1" "bands Cr = 1"
    and "width Y = w" "width Cb = w" "width Cr = w"
    and "height Y = h" "height Cb = h" "height Cr = h"
    and "\<forall>x<w. \<forall>y<h. sample Y x y 0 = 116 \<and> sample Cb x y 0 = 128 \<and> sample Cr x y 0 = 128"
  shows "\<exists>out. transform Y Cb Cr = Inr out \<and> width out = w \<and> height out = h \<and>
           (\<forall>x<w. \<forall>y<h. \<forall>b<3. sample out x y b = 100 \<and> \<bar>sample out x y b - 100\<bar> \<le> 0.01)"
proof -
  from transform_planes_samples [OF assms(1-3)]
  obtain out where out: "transform Y Cb Cr = Inr out"
    "width out = max (width Y) (max (width Cb) (width Cr))"
    "height out = max (height Y) (max (height Cb) (height Cr))"
    and s: "\<And>x y. x < width out \<Longrightarrow> y < height out \<Longrightarrow>
           sample out x y 0 = (sample Y x y 0 - 16) + 1.402 * (sample Cr x y 0 - 128)
        \<and> sample out x y 1 = (sample Y x y 0 - 16) - 0.344136 * (sample Cb x y 0 - 128)
                                - 0.714136 * (sample Cr x y 0 - 128)
        \<and> sample out x y 2 = (sample Y x y 0 - 16) + 1.772 * (sample Cb x y 0 - 128)"
    by (elim exE conjE) blast
  have wh: "width out = w" "height out = h"
    using out assms by simp_all
  have "sample out x y b = 100" if "x < w" "y < h" "b < 3" for x y b
  proof -
    from that assms(10) have v: "sample Y x y 0 = 116" "sample Cb x y 0 = 128" "sample Cr x y 0 = 128"
      by simp_all
    from that wh have r: "x < width out" "y < height out"
      by simp_all
    from less_3_cases [OF that(3)] show ?thesis
      by (elim disjE) (use s [OF r] v in simp_all)
  qed
  with out(1) wh show ?thesis
    by simp
qed

theorem transform_solid_116_128_128_witness:
  "\<not> isl (transform (solid 2 2 116) (solid 2 2 128) (solid 2 2 128)) \<and>
   sample (projr (transform (solid 2 2 116) (solid 2 2 128) (solid 2 2 128))) 1 1 0 = 100 \<and>
   sample (projr (transform (solid 2 2 116) (solid 2 2 128) (solid 2 2 128))) 1 1 1 = 100 \<and>
   sample (projr (transform (solid 2 2 116) (solid 2 2 128) (solid 2 2 128))) 1 1 2 = 100"
proof -
  have planes: "bands (solid 2 2 116) = 1" "bands (solid 2 2 128) = 1"
    "width (solid 2 2 116) = 2" "width (solid 2 2 128) = 2"
    "height (solid 2 2 116) = 2" "height (solid 2 2 128) = 2"
    by (simp_all add: solid_def)
  have vals: "\<forall>x<2. \<forall>y<2. sample (solid 2 2 116) x y 0 = 116 \<and> sample (solid 2 2 128) x y 0 = 128
      \<and> sample (solid 2 2 128) x y 0 = 128"
    by (simp add: sample_def solid_def)
  from transform_solid_116_128_128 [of "solid 2 2 116" "solid 2 2 128" "solid 2 2 128" 2 2]
    planes vals
  obtain out where "transform (solid 2 2 116) (solid 2 2 128) (solid 2 2 128) = Inr out"
    and "\<forall>x<2. \<forall>y<2. \<forall>b<3. sample out x y b = 100 \<and> \<bar>sample out x y b - 100\<bar> \<le> 0.01"
    by blast
  then show ?thesis
    by simp
qed

section \<open>Shape and range of the transform's result\<close>

text \<open>
  C6, as the specification states it, does not hold of lines 30 and 31: they hold no
  check of the planes' sizes, and the band join accepts planes of different sizes. With
  Y of size 8x8 and Cb, Cr of size 4x4 the transform does not fail; the result is 8x8,
  and where the chroma planes do not reach, at pixel (6, 6) for one, their samples count
  as zero, which gives R = 100 + 1.402 * (0 - 128) = -79.456.
\<close>

theorem transform_mismatch_counterexample:
  "\<not> isl (transform (solid 8 8 116) (solid 4 4 128) (solid 4 4 128)) \<and>
   width (projr (transform (solid 8 8 116) (solid 4 4 128) (solid 4 4 128))) = 8 \<and>
   height (projr (transform (solid 8 8 116) (solid 4 4 128) (solid 4 4 128))) = 8 \<and>
   sample (projr (transform (solid 8 8 116) (solid 4 4 128) (solid 4 4 128))) 1 1 0 = 100 \<and>
   sample (projr (transform (solid 8 8 116) (solid 4 4 128) (solid 4 4 128))) 6 6 0 = - 79.456"
  by (simp add: transform_planes solid_simps sample_def dot_ycc2rgb)

text \<open>
  C6, amended. The transform checks no dimension and raises no \<open>DimensionMismatch\<close>:
  for single-band planes Y, Cb, Cr of any sizes the call succeeds; the result is as wide
  as the widest plane and as high as the highest; no plane is cropped, and a plane
  smaller than the result is padded with zero samples to the right and at the bottom
  before the offsets are subtracted and the matrix is applied.
\<close>

theorem transform_pads_smaller_planes:
  assumes "bands Y = 1" "bands Cb = 1" "bands Cr = 1"
  shows "\<exists>out. transform Y Cb Cr = Inr out \<and>
           width out = max (width Y) (max (width Cb) (width Cr)) \<and>
           height out = max (height Y) (max (height Cb) (height Cr)) \<and>
           (\<forall>x<width out. \<forall>y<height out.
              sample out x y 0 = (sample Y x y 0 - 16) + 1.402 * (sample Cr x y 0 - 128) \<and>
              sample out x y 1 = (sample Y x y 0 - 16) - 0.344136 * (sample Cb x y 0 - 128)
                                   - 0.714136 * (sample Cr x y 0 - 128) \<and>
              sample out x y 2 = (sample Y x y 0 - 16) + 1.772 * (sample Cb x y 0 - 128)) \<and>
           (\<forall>x y. (width Cb \<le> x \<or> height Cb \<le> y \<longrightarrow> sample Cb x y 0 = 0) \<and>
                  (width Cr \<le> x \<or> height Cr \<le> y \<longrightarrow> sample Cr x y 0 = 0) \<and>
                  (width Y \<le> x \<or> height Y \<le> y \<longrightarrow> sample Y x y 0 = 0))"
proof -
  from transform_planes_samples [OF assms]
  obtain out where out: "transform Y Cb Cr = Inr out"
    "width out = max (width Y) (max (width Cb) (width Cr))"
    "height out = max (height Y) (max (height Cb) (height Cr))"
    and s: "\<And>x y. x < width out \<Longrightarrow> y < height out \<Longrightarrow>
           sample out x y 0 = (sample Y x y 0 - 16) + 1.402 * (sample Cr x y 0 - 128)
        \<and> sample out x y 1 = (sample Y x y 0 - 16) - 0.344136 * (sample Cb x y 0 - 128)
                                - 0.714136 * (sample Cr x y 0 - 128)
        \<and> sample out x y 2 = (sample Y x y 0 - 16) + 1.772 * (sample Cb x y 0 - 128)"
    by (elim exE conjE) blast
  have z: "(width P \<le> x \<or> height P \<le> y \<longrightarrow> sample P x y 0 = 0)" for P x y
    by (auto simp add: sample_def)
  from out s z show ?thesis
    by blast
qed

theorem transform_pads_smaller_planes_witness:
  "\<not> isl (transform (solid 8 8 116) (solid 4 4 128) (solid 4 4 128)) \<and>
   width (projr (transform (solid 8 8 116) (solid 4 4 128) (solid 4 4 128))) = 8 \<and>
   height (projr (transform (solid 8 8 116) (solid 4 4 128) (solid 4 4 128))) = 8 \<and>
   sample (projr (transform (solid 8 8 116) (solid 4 4 128) (solid 4 4 128))) 7 2 2 = - 126.816"
proof -
  from transform_pads_smaller_planes [of "solid 8 8 116" "solid 4 4 128" "solid 4 4 128"]
  obtain out where o: "transform (solid 8 8 116) (solid 4 4 128) (solid 4 4 128) = Inr out"
    "width out = 8" "height out = 8"
    and s: "\<forall>x<width out. \<forall>y<height out.
       sample out x y 2 = (sample (solid 8 8 116) x y 0 - 16) + 1.772 * (sample (solid 4 4 128) x y 0 - 128)"
    by (auto simp add: solid_simps)
  from s o have "sample out 7 2 2 = - 126.816"
    by (simp add: solid_simps)
  with o show ?thesis
    by simp
qed

text \<open>
  C7. The transform's output values are not clamped or rescaled to a display range. For
  planes of equal size the call succeeds whatever the sample values are, and every output
  sample is exactly the matrix row applied to the shifted input samples, a value that
  can lie below 0 or above 255 and is returned as it is, not reported as an error.
\<close>

theorem transform_unclamped:
  assumes "bands Y = 1" "bands Cb = 1" "bands Cr = 1"
    and "width Y = w" "width Cb = w" "width Cr = w"
    and "height Y = h" "height Cb = h" "height Cr = h"
  shows "\<exists>out. transform Y Cb Cr = Inr out \<and>
           (\<forall>x<w. \<forall>y<h.
              sample out x y 0 = (sample Y x y 0 - 16) + 1.402 * (sample Cr x y 0 - 128) \<and>
              sample out x y 1 = (sample Y x y 0 - 16) - 0.344136 * (sample Cb x y 0 - 128)
                                   - 0.714136 * (sample Cr x y 0 - 128) \<and>
              sample out x y 2 = (sample Y x y 0 - 16) + 1.772 * (sample Cb x y 0 - 128))"
proof -
  from transform_planes_samples [OF assms(1-3)]
  obtain out where out: "transform Y Cb Cr = Inr out"
    "width out = max (width Y) (max (width Cb) (width Cr))"
    "height out = max (height Y) (max (height Cb) (height Cr))"
    and s: "\<And>x y. x < width out \<Longrightarrow> y < height out \<Longrightarrow>
           sample out x y 0 = (sample Y x y 0 - 16) + 1.402 * (sample Cr x y 0 - 128)
        \<and> sample out x y 1 = (sample Y x y 0 - 16) - 0.344136 * (sample Cb x y 0 - 128)
                                - 0.714136 * (sample Cr x y 0 - 128)
        \<and> sample out x y 2 = (sample Y x y 0 - 16) + 1.772 * (sample Cb x y 0 - 128)"
    by (elim exE conjE) blast
  have wh: "width out = w" "height out = h"
    using out assms by simp_all
  show ?thesis
    using out(1) s wh by blast
qed

theorem transform_unclamped_witness:
  "\<not> isl (transform (solid 1 1 255) (solid 1 1 0) (solid 1 1 255)) \<and>
   sample (projr (transform (solid 1 1 255) (solid 1 1 0) (solid 1 1 255))) 0 0 0 = 417.054 \<and>
   \<not> isl (transform (solid 1 1 16) (solid 1 1 255) (solid 1 1 255)) \<and>
   sample (projr (transform (solid 1 1 16) (solid 1 1 255) (solid 1 1 255))) 0 0 1 = - 134.400544"
proof -
  from transform_unclamped [of "solid 1 1 255" "solid 1 1 0" "solid 1 1 255" 1 1]
  obtain out where a: "transform (solid 1 1 255) (solid 1 1 0) (solid 1 1 255) = Inr out"
    "sample out 0 0 0 = 417.054"
    by (auto simp add: solid_simps)
  from transform_unclamped [of "solid 1 1 16" "solid 1 1 255" "solid 1 1 255" 1 1]
  obtain out' where b: "transform (solid 1 1 16) (solid 1 1 255) (solid 1 1 255) = Inr out'"
    "sample out' 0 0 1 = - 134.400544"
    by (auto simp add: solid_simps)
  from a b show ?thesis
    by simp
qed

text \<open>
  C8. For every valid input (three single-band planes of equal size) the transform's
  result is an image of exactly 3 bands, of the width and height of the input planes,
  tagged sRGB, and it is computed from the band join of the planes in the fixed order
  Y, Cb, Cr (band 0 of the joined image is Y, band 1 is Cb, band 2 is Cr), which is built
  before the offsets are subtracted and the matrix is applied.
\<close>

theorem transform_result_shape:
  assumes "bands Y = 1" "bands Cb = 1" "bands Cr = 1"
    and "width Y = w" "width Cb = w" "width Cr = w"
    and "height Y = h" "height Cb = h" "height Cr = h"
  shows "\<exists>out. transform Y Cb Cr = Inr out \<and>
           bands out = 3 \<and> width out = w \<and> height out = h \<and> interp out = SRGB \<and>
           transform Y Cb Cr =
             and_then (sub_const (bandjoin Y [Cb, Cr]) [16, 128, 128]) (\<lambda>shifted.
             and_then (recomb shifted ycc2rgb) (\<lambda>rgb.
             Inr (copy_interpretation rgb SRGB))) \<and>
           bands (bandjoin Y [Cb, Cr]) = 3 \<and>
           width (bandjoin Y [Cb, Cr]) = w \<and> height (bandjoin Y [Cb, Cr]) = h \<and>
           (\<forall>x y. sample (bandjoin Y [Cb, Cr]) x y 0 = sample Y x y 0 \<and>
                  sample (bandjoin Y [Cb, Cr]) x y 1 = sample Cb x y 0 \<and>
                  sample (bandjoin Y [Cb, Cr]) x y 2 = sample Cr x y 0)"
proof -
  from transform_planes_samples [OF assms(1-3)]
  obtain out where out: "transform Y Cb Cr = Inr out"
    "width out = max (width Y) (max (width Cb) (width Cr))"
    "height out = max (height Y) (max (height Cb) (height Cr))"
    "bands out = 3" "interp out = SRGB"
    by (elim exE conjE) blast
  have wh: "width out = w" "height out = h"
    using out assms by simp_all
  have j: "bands (bandjoin Y [Cb, Cr]) = 3"
    "width (bandjoin Y [Cb, Cr]) = w" "height (bandjoin Y [Cb, Cr]) = h"
    using assms by (simp_all add: bandjoin_planes)
  have "sample (bandjoin Y [Cb, Cr]) x y 0 = sample Y x y 0 \<and>
        sample (bandjoin Y [Cb, Cr]) x y 1 = sample Cb x y 0 \<and>
        sample (bandjoin Y [Cb, Cr]) x y 2 = sample Cr x y 0" for x y
    using assms by (simp add: sample_def [of "bandjoin Y [Cb, Cr]"] j bandjoin_planes)
       (simp add: sample_def)
  with out wh j show ?thesis
    by (simp add: transform_def)
qed

theorem transform_result_shape_witness:
  "\<not> isl (transform (solid 2 3 50) (solid 2 3 60) (solid 2 3 70)) \<and>
   bands (projr (transform (solid 2 3 50) (solid 2 3 60) (solid 2 3 70))) = 3 \<and>
   width (projr (transform (solid 2 3 50) (solid 2 3 60) (solid 2 3 70))) = 2 \<and>
   height (projr (transform (solid 2 3 50) (solid 2 3 60) (solid 2 3 70))) = 3 \<and>
   interp (projr (transform (solid 2 3 50) (solid 2 3 60) (solid 2 3 70))) = SRGB \<and>
   sample (bandjoin (solid 2 3 50) [solid 2 3 60, solid 2 3 70]) 1 2 0 = 50 \<and>
   sample (bandjoin (solid 2 3 50) [solid 2 3 60, solid 2 3 70]) 1 2 1 = 60 \<and>
   sample (bandjoin (solid 2 3 50) [solid 2 3 60, solid 2 3 70]) 1 2 2 = 70"
proof -
  from transform_result_shape [of "solid 2 3 50" "solid 2 3 60" "solid 2 3 70" 2 3]
  obtain out where "transform (solid 2 3 50) (solid 2 3 60) (solid 2 3 70) = Inr out"
    "bands out = 3" "width out = 2" "height out = 3" "interp out = SRGB"
    "\<forall>x y. sample (bandjoin (solid 2 3 50) [solid 2 3 60, solid 2 3 70]) x y 0 = sample (solid 2 3 50) x y 0 \<and>
                  sample (bandjoin (solid 2 3 50) [solid 2 3 60, solid 2 3 70]) x y 1 = sample (solid 2 3 60) x y 0 \<and>
                  sample (bandjoin (solid 2 3 50) [solid 2 3 60, solid 2 3 70]) x y 2 = sample (solid 2 3 70) x y 0"
    by (auto simp add: solid_simps)
  then show ?thesis
    by (simp add: solid_simps)
qed

section \<open>The two functions and the benchmark\<close>

text \<open>
  C10. For every triple of input planes on which both succeed, \<^verbatim>\<open>try3\<close> computes the
  image that \<^verbatim>\<open>try2\<close> returns and differs only in serialising it afterwards: what
  \<^verbatim>\<open>try3\<close> returns is the serialisation of exactly the image \<^verbatim>\<open>try2\<close> returns,
  whatever the serialiser is.
\<close>

theorem try3_serialises_try2:
  assumes "try2 Y Cb Cr = Inr img" and "try3 wtb Y Cb Cr = Inr bs"
  shows "wtb img = Inr bs"
  using assms by (simp add: try3_try2)

theorem try3_serialises_try2_witness:
  "\<not> isl (try2 (solid 2 2 116) (solid 1 1 128) (solid 1 1 128)) \<and>
   try3 pixel_buffer (solid 2 2 116) (solid 1 1 128) (solid 1 1 128) =
     Inr [100, 100, 100, 100, 100, 100, 100, 100, 100, 100, 100, 100] \<and>
   pixel_buffer (projr (try2 (solid 2 2 116) (solid 1 1 128) (solid 1 1 128))) =
     Inr [100, 100, 100, 100, 100, 100, 100, 100, 100, 100, 100, 100]"
proof -
  from upsample_solid [of 128] obtain U where U: "upsample (solid 1 1 128) subsample = Inr U"
    "bands U = 1" "width U = 2" "height U = 2"
    and sU: "\<And>x y. sample U x y 0 = (if x < 2 \<and> y < 2 then 128 else 0)"
    by blast
  have t: "try2 (solid 2 2 116) (solid 1 1 128) (solid 1 1 128) = transform (solid 2 2 116) U U"
    by (simp only: try2_transform U and_then_Inr)
  from transform_planes_samples [of "solid 2 2 116" U U] U
  obtain img where img: "transform (solid 2 2 116) U U = Inr img"
    "width img = 2" "height img = 2" "bands img = 3"
    and s: "\<And>x y. x < 2 \<Longrightarrow> y < 2 \<Longrightarrow> sample img x y 0 = 100 \<and> sample img x y 1 = 100 \<and> sample img x y 2 = 100"
    by (auto simp add: solid_simps sU)
  have u: "[0..<2] = [0, Suc 0]" "[0..<3] = [0, Suc 0, 2]"
    by (simp_all add: upt_rec)
  have pb: "pixel_buffer img = Inr [100, 100, 100, 100, 100, 100, 100, 100, 100, 100, 100, 100]"
    using s [of 0 0] s [of 1 0] s [of 0 1] s [of 1 1]
    by (simp add: pixel_buffer_def img u)
  have t2: "try2 (solid 2 2 116) (solid 1 1 128) (solid 1 1 128) = Inr img"
    by (simp only: t img)
  have t3: "try3 pixel_buffer (solid 2 2 116) (solid 1 1 128) (solid 1 1 128) =
      Inr [100, 100, 100, 100, 100, 100, 100, 100, 100, 100, 100, 100]"
    by (simp only: try3_try2 t2 and_then_Inr pb)
  from try3_serialises_try2 [OF t2 t3] t2 t3 show ?thesis
    by simp
qed

text \<open>
  C9. The claim is that the second call of \<^verbatim>\<open>bench\<close> runs the serialising function
  \<^verbatim>\<open>try3\<close>. Line 47 of the script passes \<^verbatim>\<open>try2\<close> under the message
  \<^verbatim>\<open>plus write_to_binary\<close>: both calls of \<^verbatim>\<open>bench\<close> run \<^verbatim>\<open>try2\<close>, \<^verbatim>\<open>try3\<close> is
  never called, and the second result is never a serialised value.
\<close>

theorem second_bench_runs_try2:
  "benchmarks ! 1 = (''plus write_to_binary'', Try2) \<and>
   Try3 \<notin> snd ` set benchmarks \<and>
   main wtb Y Cb Cr =
     [bench wtb ''linear'' Try2 Y Cb Cr, bench wtb ''plus write_to_binary'' Try2 Y Cb Cr] \<and>
   (\<forall>bs. snd (main wtb Y Cb Cr ! 1) \<noteq> Inr (Binary bs))"
  by (auto simp add: benchmarks_def main_def bench_def call_def copy_memory_def and_then_def
      split: sum.splits pyvalue.splits)

end
